theory Spec2Isabelle
  imports Complex_Main "HOL-Library.Log_Nat"
begin

section \<open>JavaScript numbers\<close>

text \<open>
  The calculator computes on JavaScript numbers. A number is \<open>NaN\<close>, one of the two
  infinities, or a finite value. Finite values are modelled by the reals: the operations
  below are the IEEE 754 operations on the special values and exact arithmetic on finite
  ones, so rounding to 53 bits, overflow to an infinity and the sign of zero are left out
  (a zero divisor is taken as \<open>+0\<close>). Binary64 rounding itself is modelled further down,
  for \<open>round2\<close>.
\<close>

datatype jsnum = NaN | PInf | NInf | Fin real

fun jneg :: "jsnum \<Rightarrow> jsnum" where
  "jneg NaN = NaN"
| "jneg PInf = NInf"
| "jneg NInf = PInf"
| "jneg (Fin x) = Fin (- x)"

fun jadd :: "jsnum \<Rightarrow> jsnum \<Rightarrow> jsnum" where
  "jadd (Fin x) (Fin y) = Fin (x + y)"
| "jadd NaN b = NaN"
| "jadd a NaN = NaN"
| "jadd PInf NInf = NaN"
| "jadd NInf PInf = NaN"
| "jadd PInf b = PInf"
| "jadd a PInf = PInf"
| "jadd NInf b = NInf"
| "jadd a NInf = NInf"

definition jsub :: "jsnum \<Rightarrow> jsnum \<Rightarrow> jsnum" where
  "jsub a b = jadd a (jneg b)"

fun jmul :: "jsnum \<Rightarrow> jsnum \<Rightarrow> jsnum" where
  "jmul (Fin x) (Fin y) = Fin (x * y)"
| "jmul NaN b = NaN"
| "jmul a NaN = NaN"
| "jmul PInf (Fin y) = (if y = 0 then NaN else if 0 < y then PInf else NInf)"
| "jmul NInf (Fin y) = (if y = 0 then NaN else if 0 < y then NInf else PInf)"
| "jmul (Fin x) PInf = (if x = 0 then NaN else if 0 < x then PInf else NInf)"
| "jmul (Fin x) NInf = (if x = 0 then NaN else if 0 < x then NInf else PInf)"
| "jmul PInf PInf = PInf"
| "jmul PInf NInf = NInf"
| "jmul NInf PInf = NInf"
| "jmul NInf NInf = PInf"

fun jdiv :: "jsnum \<Rightarrow> jsnum \<Rightarrow> jsnum" where
  "jdiv (Fin x) (Fin y) =
     (if y \<noteq> 0 then Fin (x / y) else if x = 0 then NaN else if 0 < x then PInf else NInf)"
| "jdiv NaN b = NaN"
| "jdiv a NaN = NaN"
| "jdiv (Fin x) PInf = Fin 0"
| "jdiv (Fin x) NInf = Fin 0"
| "jdiv PInf (Fin y) = (if 0 \<le> y then PInf else NInf)"
| "jdiv NInf (Fin y) = (if 0 \<le> y then NInf else PInf)"
| "jdiv PInf b = NaN"
| "jdiv NInf b = NaN"

text \<open>The comparisons \<open><\<close>, \<open>>\<close> and \<open><=\<close>: each is false as soon as an operand is \<open>NaN\<close>.\<close>

fun jlt :: "jsnum \<Rightarrow> jsnum \<Rightarrow> bool" where
  "jlt (Fin x) (Fin y) = (x < y)"
| "jlt NaN b = False"
| "jlt a NaN = False"
| "jlt PInf b = False"
| "jlt a NInf = False"
| "jlt NInf b = True"
| "jlt a PInf = True"

definition jgt :: "jsnum \<Rightarrow> jsnum \<Rightarrow> bool" where
  "jgt a b = jlt b a"

definition jle :: "jsnum \<Rightarrow> jsnum \<Rightarrow> bool" where
  "jle a b = (a \<noteq> NaN \<and> b \<noteq> NaN \<and> \<not> jlt b a)"

definition isNaN :: "jsnum \<Rightarrow> bool" where
  "isNaN v = (v = NaN)"

text \<open>\<open>Math.abs\<close>, \<open>Math.max\<close> and \<open>Math.round\<close> (nearest integer, a tie going up).\<close>

fun Math_abs :: "jsnum \<Rightarrow> jsnum" where
  "Math_abs NaN = NaN"
| "Math_abs PInf = PInf"
| "Math_abs NInf = PInf"
| "Math_abs (Fin x) = Fin \<bar>x\<bar>"

definition Math_max :: "jsnum \<Rightarrow> jsnum \<Rightarrow> jsnum" where
  "Math_max a b = (if a = NaN \<or> b = NaN then NaN else if jlt a b then b else a)"

fun Math_round :: "jsnum \<Rightarrow> jsnum" where
  "Math_round NaN = NaN"
| "Math_round PInf = PInf"
| "Math_round NInf = NInf"
| "Math_round (Fin x) = Fin (of_int \<lfloor>x + 1 / 2\<rfloor>)"

text \<open>Truthiness of a number, as \<open>||\<close> tests it: \<open>0\<close> and \<open>NaN\<close> are falsy.\<close>

definition truthy :: "jsnum \<Rightarrow> bool" where
  "truthy v = (v \<noteq> NaN \<and> v \<noteq> Fin 0)"

section \<open>Errors\<close>

text \<open>
  Every \<open>throw\<close> of the engine is a constructor, named after the message it carries; the
  three \<open>catch\<close> blocks that rethrow with a prefix are the three wrapping constructors.
  \<open>MustBeValidNumber\<close>, \<open>MustBeGreaterThanZero\<close> (both with the field name) and
  \<open>PercentageOutOfRange\<close> are the invalid-input errors, \<open>Round2Invalid\<close> is the error of
  \<open>round2\<close>, \<open>DenominatorTooSmall\<close> the degenerate-rates error and \<open>GoalSeekTimeout\<close> the
  error of an unreachable target. \<open>NullBestResult\<close> is the \<open>TypeError\<close> of reading
  \<open>bestResult.subtotal\<close> when \<open>bestResult\<close> is still \<open>null\<close>.
\<close>

datatype error =
    MustBeValidNumber string
  | MustBeGreaterThanZero string
  | PercentageOutOfRange
  | Round2Invalid
  | DenominatorTooSmall
  | GoalSeekTimeout
  | NullBestResult
  | InCalculationFromSubtotal error
  | InAlgebraicCalculation error
  | InGoalSeek error

definition andThen :: "error + 'a \<Rightarrow> ('a \<Rightarrow> error + 'b) \<Rightarrow> error + 'b" where
  "andThen r f = (case r of Inl e \<Rightarrow> Inl e | Inr x \<Rightarrow> f x)"

definition rethrow :: "(error \<Rightarrow> error) \<Rightarrow> error + 'a \<Rightarrow> error + 'a" where
  "rethrow w r = (case r of Inl e \<Rightarrow> Inl (w e) | Inr x \<Rightarrow> Inr x)"

section \<open>Configuration constants\<close>

definition EPSILON :: jsnum where
  "EPSILON = Fin (1 / 2 ^ 52)"

definition MAX_ITERATIONS :: nat where
  "MAX_ITERATIONS = 80"

definition TOLERANCE :: jsnum where
  "TOLERANCE = Fin 0.0005"

definition SEARCH_RANGE_MULTIPLIER :: jsnum where
  "SEARCH_RANGE_MULTIPLIER = Fin 2000"

definition MAX_ATTEMPTS :: nat where
  "MAX_ATTEMPTS = 40"

section \<open>Rounding and validation\<close>

text \<open>
  \<open>round2\<close> receives a number here, so its \<open>typeof\<close> test never fires and only \<open>isNaN\<close>
  decides the throw.
\<close>

definition round2 :: "jsnum \<Rightarrow> error + jsnum" where
  "round2 v =
     (if isNaN v then Inl Round2Invalid
      else Inr (jdiv (Math_round (jmul (jadd v EPSILON) (Fin 100))) (Fin 100)))"

text \<open>\<open>parseFloat\<close> of a number is that number, so \<open>numValue\<close> is the argument.\<close>

definition validatePositiveNumber :: "jsnum \<Rightarrow> string \<Rightarrow> error + bool" where
  "validatePositiveNumber v fieldName =
     (let numValue = v in
      if isNaN numValue then Inl (MustBeValidNumber fieldName)
      else if jle numValue (Fin 0) then Inl (MustBeGreaterThanZero fieldName)
      else Inr True)"

definition calculatePercentage :: "jsnum \<Rightarrow> jsnum \<Rightarrow> error + jsnum" where
  "calculatePercentage v percentage =
     andThen (validatePositiveNumber v ''Base value'') (\<lambda>_.
       if jlt percentage (Fin 0) \<or> jgt percentage (Fin 1) then Inl PercentageOutOfRange
       else Inr (jmul v percentage))"

section \<open>The calculator\<close>

record rates =
  vatRate :: jsnum
  incomeTaxRate :: jsnum
  vatRetentionFraction :: jsnum

text \<open>An object literal whose fields may be absent (\<open>undefined\<close> is \<open>None\<close>).\<close>

record partial_rates =
  vatRate_opt :: "jsnum option"
  incomeTaxRate_opt :: "jsnum option"
  vatRetentionFraction_opt :: "jsnum option"

record options =
  roundPerLine :: bool

record breakdown =
  subtotal :: jsnum
  vatRaw :: jsnum
  incomeTaxWithheldRaw :: jsnum
  vatRetentionRaw :: jsnum
  vat :: jsnum
  incomeTaxWithheld :: jsnum
  vatRetention :: jsnum
  netAmount :: jsnum
  calculationMethod :: string
  options :: options

text \<open>\<open>field || dflt\<close>: the default replaces an absent field and a falsy one.\<close>

definition or_default :: "jsnum option \<Rightarrow> jsnum \<Rightarrow> jsnum" where
  "or_default field dflt =
     (case field of None \<Rightarrow> dflt | Some v \<Rightarrow> if truthy v then v else dflt)"

definition constructor :: "partial_rates \<Rightarrow> rates" where
  "constructor r =
     \<lparr> vatRate = or_default (vatRate_opt r) (Fin 0.16),
       incomeTaxRate = or_default (incomeTaxRate_opt r) (Fin 0.10),
       vatRetentionFraction = or_default (vatRetentionFraction_opt r) (Fin 0.6666666667) \<rparr>"

definition calculateFromSubtotal :: "rates \<Rightarrow> jsnum \<Rightarrow> options \<Rightarrow> error + breakdown" where
  "calculateFromSubtotal this s opts =
     rethrow InCalculationFromSubtotal
      (andThen (validatePositiveNumber s ''Subtotal'') (\<lambda>_.
       andThen (calculatePercentage s (vatRate this)) (\<lambda>vatRaw'.
       andThen (calculatePercentage s (incomeTaxRate this)) (\<lambda>incomeTaxWithheldRaw'.
       andThen (calculatePercentage vatRaw' (vatRetentionFraction this)) (\<lambda>vatRetentionRaw'.
       andThen (if roundPerLine opts then round2 vatRaw' else Inr vatRaw') (\<lambda>vat'.
       andThen (if roundPerLine opts then round2 incomeTaxWithheldRaw'
                else Inr incomeTaxWithheldRaw') (\<lambda>incomeTaxWithheld'.
       andThen (if roundPerLine opts then round2 vatRetentionRaw'
                else Inr vatRetentionRaw') (\<lambda>vatRetention'.
       let netAmount' = jsub (jsub (jadd s vat') incomeTaxWithheld') vatRetention' in
       andThen (round2 netAmount') (\<lambda>rounded.
         Inr \<lparr> subtotal = s,
               vatRaw = vatRaw',
               incomeTaxWithheldRaw = incomeTaxWithheldRaw',
               vatRetentionRaw = vatRetentionRaw',
               vat = vat',
               incomeTaxWithheld = incomeTaxWithheld',
               vatRetention = vatRetention',
               netAmount = rounded,
               calculationMethod = ''fromSubtotal'',
               options = opts \<rparr>)))))))))"

definition calculateSubtotalFromNetAlgebraic :: "rates \<Rightarrow> jsnum \<Rightarrow> error + jsnum" where
  "calculateSubtotalFromNetAlgebraic this net =
     rethrow InAlgebraicCalculation
      (andThen (validatePositiveNumber net ''Net amount'') (\<lambda>_.
       let denominator =
             jsub (jsub (jadd (Fin 1) (vatRate this)) (incomeTaxRate this))
                  (jmul (vatRate this) (vatRetentionFraction this))
       in if jlt (Math_abs denominator) (Fin 0.000001) then Inl DenominatorTooSmall
          else Inr (jdiv net denominator)))"

definition calculateNetForSubtotal :: "rates \<Rightarrow> options \<Rightarrow> jsnum \<Rightarrow> error + jsnum" where
  "calculateNetForSubtotal this opts s =
     andThen (calculateFromSubtotal this s opts) (\<lambda>r. Inr (netAmount r))"

text \<open>The condition of the \<open>while\<close> loop: both bracket ends on the same side of the target.\<close>

definition sameSide :: "jsnum \<Rightarrow> jsnum \<Rightarrow> jsnum \<Rightarrow> bool" where
  "sameSide target nLow nHigh =
     ((jgt nLow target \<and> jgt nHigh target) \<or> (jlt nLow target \<and> jlt nHigh target))"

text \<open>
  The bracket-widening \<open>while\<close> loop, on its variables \<open>attempts\<close> (a counter, so a
  natural number), \<open>low\<close>, \<open>high\<close>, \<open>nLow\<close> and \<open>nHigh\<close>. It returns the value of
  \<open>attempts\<close> with the bracket it leaves.
\<close>

function widenBracket ::
  "rates \<Rightarrow> options \<Rightarrow> jsnum \<Rightarrow> nat \<Rightarrow> jsnum \<Rightarrow> jsnum \<Rightarrow> jsnum \<Rightarrow> jsnum
     \<Rightarrow> error + (nat \<times> jsnum \<times> jsnum)" where
  "widenBracket this opts target attempts low high nLow nHigh =
     (if sameSide target nLow nHigh then
        (let attempts' = attempts + 1 in
         if attempts' > MAX_ATTEMPTS then Inl GoalSeekTimeout
         else
           (let low' = Math_max (Fin 0)
                         (jsub low (jmul SEARCH_RANGE_MULTIPLIER (Fin (real attempts'))));
                high' = jadd high (jmul SEARCH_RANGE_MULTIPLIER (Fin (real attempts')))
            in case calculateNetForSubtotal this opts low' of
                 Inl e \<Rightarrow> Inl e
               | Inr nLow' \<Rightarrow>
                   (case calculateNetForSubtotal this opts high' of
                      Inl e \<Rightarrow> Inl e
                    | Inr nHigh' \<Rightarrow>
                        widenBracket this opts target attempts' low' high' nLow' nHigh')))
      else Inr (attempts, low, high))"
  by pat_completeness auto

termination widenBracket
  by (relation "measure (\<lambda>(this, opts, target, attempts, low, high, nLow, nHigh).
                   MAX_ATTEMPTS + 1 - attempts)") auto

declare widenBracket.simps [simp del]

text \<open>Whether \<open>result\<close> replaces \<open>bestResult\<close> (\<open>null\<close> is \<open>None\<close>).\<close>

definition improves :: "jsnum \<Rightarrow> jsnum \<Rightarrow> breakdown option \<Rightarrow> bool" where
  "improves target currentNet bestResult =
     (case bestResult of
        None \<Rightarrow> True
      | Some best \<Rightarrow>
          jlt (Math_abs (jsub currentNet target)) (Math_abs (jsub (netAmount best) target)))"

text \<open>
  The binary-search \<open>for\<close> loop, on \<open>i\<close>, \<open>lo\<close>, \<open>hi\<close> and \<open>bestResult\<close>. It returns the
  value of \<open>i\<close> at which it stops (by \<open>break\<close> or by the bound) with \<open>bestResult\<close>.
\<close>

function binarySearch ::
  "rates \<Rightarrow> options \<Rightarrow> jsnum \<Rightarrow> nat \<Rightarrow> jsnum \<Rightarrow> jsnum \<Rightarrow> breakdown option
     \<Rightarrow> error + (nat \<times> breakdown option)" where
  "binarySearch this opts target i lo hi bestResult =
     (if i < MAX_ITERATIONS then
        (let mid = jdiv (jadd lo hi) (Fin 2) in
         case calculateFromSubtotal this mid opts of
           Inl e \<Rightarrow> Inl e
         | Inr result \<Rightarrow>
             (let currentNet = netAmount result;
                  bestResult' = (if improves target currentNet bestResult then Some result
                                 else bestResult)
              in if jlt (Math_abs (jsub currentNet target)) TOLERANCE
                 then Inr (i, bestResult')
                 else if jgt currentNet target
                 then binarySearch this opts target (i + 1) lo mid bestResult'
                 else binarySearch this opts target (i + 1) mid hi bestResult'))
      else Inr (i, bestResult))"
  by pat_completeness auto

termination binarySearch
  by (relation "measure (\<lambda>(this, opts, target, i, lo, hi, bestResult). MAX_ITERATIONS - i)")
     auto

declare binarySearch.simps [simp del]

definition goalSeekSubtotal :: "rates \<Rightarrow> jsnum \<Rightarrow> options \<Rightarrow> error + breakdown" where
  "goalSeekSubtotal this target opts =
     rethrow InGoalSeek
      (andThen (validatePositiveNumber target ''Target net amount'') (\<lambda>_.
       andThen (calculateSubtotalFromNetAlgebraic this target) (\<lambda>initialGuess.
       let low = Math_max (Fin 0) (jsub initialGuess SEARCH_RANGE_MULTIPLIER);
           high = jadd initialGuess SEARCH_RANGE_MULTIPLIER
       in
       andThen (calculateNetForSubtotal this opts low) (\<lambda>nLow.
       andThen (calculateNetForSubtotal this opts high) (\<lambda>nHigh.
       andThen (widenBracket this opts target 0 low high nLow nHigh) (\<lambda>(attempts, low', high').
       andThen (binarySearch this opts target 0 low' high' None) (\<lambda>(i, bestResult).
       case bestResult of
         None \<Rightarrow> Inl NullBestResult
       | Some best \<Rightarrow>
           andThen (round2 (subtotal best)) (\<lambda>rounded.
           andThen (calculateFromSubtotal this rounded opts) (\<lambda>final.
             Inr (final\<lparr>calculationMethod := ''goalSeek''\<rparr>))))))))))"

definition updateRates :: "rates \<Rightarrow> partial_rates \<Rightarrow> rates" where
  "updateRates this newRates =
     \<lparr> vatRate = (case vatRate_opt newRates of None \<Rightarrow> vatRate this | Some v \<Rightarrow> v),
       incomeTaxRate =
         (case incomeTaxRate_opt newRates of None \<Rightarrow> incomeTaxRate this | Some v \<Rightarrow> v),
       vatRetentionFraction =
         (case vatRetentionFraction_opt newRates of
            None \<Rightarrow> vatRetentionFraction this | Some v \<Rightarrow> v) \<rparr>"

definition getRates :: "rates \<Rightarrow> rates" where
  "getRates this = this"

section \<open>Binary64 rounding\<close>

text \<open>
  A JavaScript number is an IEEE 754 binary64 value, and every arithmetic operation
  returns the exact result rounded to the nearest such value, a tie going to the even
  significand. \<open>rne\<close> rounds a real to the nearest integer in that way.
  \<open>binary64_exponent x\<close> is the exponent \<open>e\<close> with \<open>2\<^sup>e \<le> \<bar>x\<bar> < 2\<^sup>e\<^sup>+\<^sup>1\<close>, and \<open>-1022\<close> below
  the normal range; \<open>binary64 x\<close> rounds \<open>x\<close> to 53 significant bits at that exponent and
  overflows to an infinity from \<open>2\<^sup>1\<^sup>0\<^sup>2\<^sup>4\<close> on. \<open>binary64_result\<close> applies it to the result
  of an operation, and \<open>round2_binary64\<close> is \<open>round2\<close> with each of its three operations rounded
  (\<open>Math.round\<close> is exact on binary64 values).
\<close>

definition rne :: "real \<Rightarrow> int" where
  "rne x = (let n = \<lfloor>x\<rfloor>; d = x - of_int n in
            if d < 1 / 2 then n else if 1 / 2 < d then n + 1
            else if even n then n else n + 1)"

definition binary64_exponent :: "real \<Rightarrow> int" where
  "binary64_exponent x = max (bitlen \<lfloor>\<bar>x\<bar> * 2 ^ 1074\<rfloor> - 1075) (- 1022)"

definition binary64 :: "real \<Rightarrow> jsnum" where
  "binary64 x =
     (let q = binary64_exponent x - 52;
          y = of_int (rne (x / 2 powi q)) * 2 powi q
      in if 2 ^ 1024 \<le> \<bar>y\<bar> then (if 0 < x then PInf else NInf) else Fin y)"

definition binary64_result :: "jsnum \<Rightarrow> jsnum" where
  "binary64_result a = (case a of Fin x \<Rightarrow> binary64 x | _ \<Rightarrow> a)"


section \<open>Rounding a finite value\<close>

text \<open>\<open>round2\<close> on a finite value in exact arithmetic, as a function on the reals.\<close>

definition r2 :: "real \<Rightarrow> real" where
  "r2 x = of_int \<lfloor>(x + 1 / 2 ^ 52) * 100 + 1 / 2\<rfloor> / 100"

section \<open>Evaluation lemmas\<close>

lemma andThen_simps [simp]:
  "andThen (Inl e) f = Inl e"
  "andThen (Inr x) f = f x"
  by (simp_all add: andThen_def)

lemma rethrow_simps [simp]:
  "rethrow w (Inl e) = Inl (w e)"
  "rethrow w (Inr x) = Inr x"
  by (simp_all add: rethrow_def)

lemma round2_simps:
  "round2 NaN = Inl Round2Invalid"
  "round2 PInf = Inr PInf"
  "round2 NInf = Inr NInf"
  "round2 (Fin x) = Inr (Fin (of_int \<lfloor>(x + 1 / 2 ^ 52) * 100 + 1 / 2\<rfloor> / 100))"
  by (simp_all add: round2_def isNaN_def EPSILON_def)

lemma round2_Fin: "round2 (Fin x) = Inr (Fin (r2 x))"
  by (simp add: round2_simps r2_def)

lemma validatePositiveNumber_Fin:
  "validatePositiveNumber (Fin x) name =
     (if x \<le> 0 then Inl (MustBeGreaterThanZero name) else Inr True)"
  by (auto simp add: validatePositiveNumber_def isNaN_def jle_def)

lemma calculatePercentage_Fin:
  "calculatePercentage (Fin x) (Fin p) =
     (if x \<le> 0 then Inl (MustBeGreaterThanZero ''Base value'')
      else if p < 0 \<or> 1 < p then Inl PercentageOutOfRange
      else Inr (Fin (x * p)))"
  by (simp add: calculatePercentage_def validatePositiveNumber_Fin jgt_def)


lemma calculateFromSubtotal_rounded:
  assumes "0 < s" and "0 < v" and "v \<le> 1" and "0 \<le> t" and "t \<le> 1" and "0 \<le> f" and "f \<le> 1"
    and "roundPerLine opts"
  shows "calculateFromSubtotal
           \<lparr>vatRate = Fin v, incomeTaxRate = Fin t, vatRetentionFraction = Fin f\<rparr>
           (Fin s) opts
         = Inr \<lparr>subtotal = Fin s, vatRaw = Fin (s * v), incomeTaxWithheldRaw = Fin (s * t),
                vatRetentionRaw = Fin (s * v * f), vat = Fin (r2 (s * v)),
                incomeTaxWithheld = Fin (r2 (s * t)), vatRetention = Fin (r2 (s * v * f)),
                netAmount = Fin (r2 (s + r2 (s * v) - r2 (s * t) - r2 (s * v * f))),
                calculationMethod = ''fromSubtotal'', options = opts\<rparr>"
proof -
  from assms have pos: "0 < s * v" by simp
  have val: "validatePositiveNumber (Fin s) ''Subtotal'' = Inr True"
    using assms(1) by (simp add: validatePositiveNumber_Fin)
  have p1: "calculatePercentage (Fin s) (Fin v) = Inr (Fin (s * v))"
    using assms(1-3) by (simp add: calculatePercentage_Fin)
  have p2: "calculatePercentage (Fin s) (Fin t) = Inr (Fin (s * t))"
    using assms(1,4,5) by (simp add: calculatePercentage_Fin)
  have p3: "calculatePercentage (Fin (s * v)) (Fin f) = Inr (Fin (s * v * f))"
    using pos assms(6,7) by (simp add: calculatePercentage_Fin)
  show ?thesis
    unfolding calculateFromSubtotal_def
    by (simp add: val p1 p2 p3 assms(8) round2_Fin jsub_def)
qed

section \<open>The breakdown from a subtotal\<close>




section \<open>The algebraic inverse\<close>

text \<open>
  Claim C5. For every target net amount \<open>n > 0\<close> and every rate set,
  \<open>calculateSubtotalFromNetAlgebraic\<close> fails with the degenerate-rates error (the message
  \<open>denominatorTooSmall\<close>, rethrown by the function's \<open>catch\<close>) exactly when
  \<open>\<bar>1 + vatRate - incomeTaxRate - vatRate * vatRetentionFraction\<bar> < 0.000001\<close>, and otherwise
  returns \<open>n\<close> divided by that denominator.
\<close>

theorem algebraic_degenerate_iff:
  assumes "0 < n"
  shows "calculateSubtotalFromNetAlgebraic
           \<lparr>vatRate = Fin v, incomeTaxRate = Fin t, vatRetentionFraction = Fin f\<rparr> (Fin n)
         = (if \<bar>1 + v - t - v * f\<bar> < 0.000001
            then Inl (InAlgebraicCalculation DenominatorTooSmall)
            else Inr (Fin (n / (1 + v - t - v * f))))"
  using assms
  by (auto simp add: calculateSubtotalFromNetAlgebraic_def validatePositiveNumber_Fin jsub_def)

theorem algebraic_degenerate_iff_witness:
  "(0::real) < 100
   \<and> calculateSubtotalFromNetAlgebraic
         \<lparr>vatRate = Fin 1, incomeTaxRate = Fin 1, vatRetentionFraction = Fin 1\<rparr> (Fin 100)
       = Inl (InAlgebraicCalculation DenominatorTooSmall)
   \<and> calculateSubtotalFromNetAlgebraic
         \<lparr>vatRate = Fin 0.5, incomeTaxRate = Fin 0.25, vatRetentionFraction = Fin 0\<rparr> (Fin 100)
       = Inr (Fin 80)"
  using algebraic_degenerate_iff [of 100 1 1 1] algebraic_degenerate_iff [of 100 "0.5" "0.25" 0]
  by simp

section \<open>Rounding to two decimals\<close>

text \<open>
  Claim C8, as the code has it. \<open>round2\<close> fails exactly when its input is \<open>NaN\<close>: for
  every finite input it returns a value, and it returns an infinity unchanged. The guard
  of \<open>round2\<close> is \<open>isNaN\<close>, which the infinities pass.
\<close>

theorem round2_fails_iff_NaN:
  "((\<exists>e. round2 v = Inl e) \<longleftrightarrow> v = NaN)
   \<and> round2 NaN = Inl Round2Invalid
   \<and> round2 PInf = Inr PInf
   \<and> round2 NInf = Inr NInf
   \<and> round2 (Fin x) = Inr (Fin (of_int \<lfloor>(x + 1 / 2 ^ 52) * 100 + 1 / 2\<rfloor> / 100))"
  by (cases v) (simp_all add: round2_simps)

text \<open>The claim as written has \<open>round2\<close> fail on the infinities. It returns them.\<close>

theorem round2_infinity_counterexample:
  "round2 PInf = Inr PInf \<and> round2 NInf = Inr NInf"
  by (simp add: round2_simps)

section \<open>The constructor\<close>

text \<open>
  Claim C9. A constructor argument with a rate field that is explicitly \<open>0\<close> yields the
  default of that field (\<open>0.16\<close>, \<open>0.10\<close>, \<open>0.6666666667\<close>), and whatever its argument
  the constructor never produces a rate of \<open>0\<close>.
\<close>

theorem constructor_zero_rate_defaults:
  "vatRate (constructor (r\<lparr>vatRate_opt := Some (Fin 0)\<rparr>)) = Fin 0.16
   \<and> incomeTaxRate (constructor (r\<lparr>incomeTaxRate_opt := Some (Fin 0)\<rparr>)) = Fin 0.10
   \<and> vatRetentionFraction (constructor (r\<lparr>vatRetentionFraction_opt := Some (Fin 0)\<rparr>))
       = Fin 0.6666666667
   \<and> vatRate (constructor r) \<noteq> Fin 0
   \<and> incomeTaxRate (constructor r) \<noteq> Fin 0
   \<and> vatRetentionFraction (constructor r) \<noteq> Fin 0"
  by (simp add: constructor_def or_default_def truthy_def split: option.split)

section \<open>A zero VAT rate\<close>

lemma calculatePercentage_zero_base: "\<exists>e. calculatePercentage (Fin 0) p = Inl e"
  by (simp add: calculatePercentage_def validatePositiveNumber_Fin)

lemma calculatePercentage_NaN_base: "\<exists>e. calculatePercentage NaN p = Inl e"
  by (simp add: calculatePercentage_def validatePositiveNumber_def isNaN_def)

lemma calculatePercentage_zero_rate:
  "calculatePercentage s (Fin 0) = Inr y \<Longrightarrow> y = Fin 0 \<or> y = NaN"
  by (cases s)
     (auto simp add: calculatePercentage_def validatePositiveNumber_def isNaN_def jle_def
        jgt_def andThen_def split: if_splits)

lemma calculateFromSubtotal_zero_vat_throws:
  assumes "vatRate this = Fin 0"
  shows "\<exists>e. calculateFromSubtotal this s opts = Inl e"
proof (cases "validatePositiveNumber s ''Subtotal''")
  case (Inl e)
  then show ?thesis by (simp add: calculateFromSubtotal_def)
next
  case val: (Inr b)
  show ?thesis
  proof (cases "calculatePercentage s (Fin 0)")
    case (Inl e)
    then show ?thesis by (simp add: calculateFromSubtotal_def val assms)
  next
    case p1: (Inr y)
    show ?thesis
    proof (cases "calculatePercentage s (incomeTaxRate this)")
      case (Inl e)
      then show ?thesis by (simp add: calculateFromSubtotal_def val assms p1)
    next
      case p2: (Inr z)
      from calculatePercentage_zero_rate [OF p1]
      obtain e where "calculatePercentage y (vatRetentionFraction this) = Inl e"
        using calculatePercentage_zero_base calculatePercentage_NaN_base by blast
      then show ?thesis by (simp add: calculateFromSubtotal_def val assms p1 p2)
    qed
  qed
qed

text \<open>
  Claim C10. \<open>updateRates\<close> with only \<open>vatRate: 0\<close> sets the VAT rate to \<open>0\<close> and keeps
  the other two rates. With a VAT rate of \<open>0\<close>, \<open>calculateFromSubtotal\<close> throws for every
  subtotal and every options value; for a subtotal \<open>x > 0\<close> and an income tax rate in
  \<open>[0,1]\<close> the error is the rejected base \<open>0\<close> of the VAT retention.
\<close>

theorem zero_vat_rate_never_breaks_down:
  "vatRate (updateRates this \<lparr>vatRate_opt = Some (Fin 0), incomeTaxRate_opt = None,
                              vatRetentionFraction_opt = None\<rparr>) = Fin 0
   \<and> incomeTaxRate (updateRates this \<lparr>vatRate_opt = Some (Fin 0), incomeTaxRate_opt = None,
                              vatRetentionFraction_opt = None\<rparr>) = incomeTaxRate this
   \<and> vatRetentionFraction (updateRates this \<lparr>vatRate_opt = Some (Fin 0),
                              incomeTaxRate_opt = None, vatRetentionFraction_opt = None\<rparr>)
       = vatRetentionFraction this
   \<and> (\<exists>e. calculateFromSubtotal
              (updateRates this \<lparr>vatRate_opt = Some (Fin 0), incomeTaxRate_opt = None,
                                  vatRetentionFraction_opt = None\<rparr>) s opts = Inl e)
   \<and> (0 < x \<and> 0 \<le> t \<and> t \<le> 1 \<longrightarrow>
        calculateFromSubtotal
          \<lparr>vatRate = Fin 0, incomeTaxRate = Fin t, vatRetentionFraction = f\<rparr> (Fin x) opts
        = Inl (InCalculationFromSubtotal (MustBeGreaterThanZero ''Base value'')))"
proof -
  have "\<exists>e. calculateFromSubtotal
              (updateRates this \<lparr>vatRate_opt = Some (Fin 0), incomeTaxRate_opt = None,
                                  vatRetentionFraction_opt = None\<rparr>) s opts = Inl e"
    by (rule calculateFromSubtotal_zero_vat_throws) (simp add: updateRates_def)
  moreover have "0 < x \<and> 0 \<le> t \<and> t \<le> 1 \<longrightarrow>
        calculateFromSubtotal
          \<lparr>vatRate = Fin 0, incomeTaxRate = Fin t, vatRetentionFraction = f\<rparr> (Fin x) opts
        = Inl (InCalculationFromSubtotal (MustBeGreaterThanZero ''Base value''))"
    by (simp add: calculateFromSubtotal_def validatePositiveNumber_Fin calculatePercentage_Fin
        calculatePercentage_def [of "Fin 0"])
  ultimately show ?thesis by (simp add: updateRates_def)
qed

theorem zero_vat_rate_never_breaks_down_witness:
  "((0::real) < 1000 \<and> (0::real) \<le> 0.10 \<and> (0.10::real) \<le> 1)
   \<and> calculateFromSubtotal
        \<lparr>vatRate = Fin 0, incomeTaxRate = Fin 0.10, vatRetentionFraction = Fin 0.6666666667\<rparr>
        (Fin 1000) \<lparr>roundPerLine = False\<rparr>
      = Inl (InCalculationFromSubtotal (MustBeGreaterThanZero ''Base value''))"
  using zero_vat_rate_never_breaks_down
          [where x = 1000 and t = "0.10" and f = "Fin 0.6666666667"
             and opts = "\<lparr>roundPerLine = False\<rparr>"]
  by simp

section \<open>Goal seek on a small target\<close>

lemma calculateNetForSubtotal_zero:
  "calculateNetForSubtotal this opts (Fin 0)
   = Inl (InCalculationFromSubtotal (MustBeGreaterThanZero ''Subtotal''))"
  by (simp add: calculateNetForSubtotal_def calculateFromSubtotal_def validatePositiveNumber_Fin)

lemma low_clamped:
  assumes "jle g SEARCH_RANGE_MULTIPLIER"
  shows "Math_max (Fin 0) (jsub g SEARCH_RANGE_MULTIPLIER) = Fin 0"
  using assms
  by (cases g) (auto simp add: jle_def SEARCH_RANGE_MULTIPLIER_def Math_max_def jsub_def)

lemma algebraic_validates:
  assumes "calculateSubtotalFromNetAlgebraic this target = Inr g"
  shows "validatePositiveNumber target name = Inr True"
proof -
  have "validatePositiveNumber target ''Net amount'' = Inr True"
    using assms
    by (auto simp add: calculateSubtotalFromNetAlgebraic_def validatePositiveNumber_def
        andThen_def rethrow_def Let_def split: if_splits)
  then show ?thesis
    by (auto simp add: validatePositiveNumber_def Let_def split: if_splits)
qed

text \<open>
  Claim C3. Whenever the algebraic initial guess of a target exists and is at most the
  search-range multiplier \<open>2000\<close>, \<open>goalSeekSubtotal\<close> throws: the low end of the bracket
  is \<open>Math.max(0, initialGuess - 2000) = 0\<close>, and evaluating the breakdown at subtotal \<open>0\<close>
  fails the positive-subtotal validation. The error is that validation error, rethrown
  by the two \<open>catch\<close> blocks, and not the goal-seek timeout.
\<close>

theorem goalSeek_small_target_throws:
  assumes "calculateSubtotalFromNetAlgebraic this target = Inr initialGuess"
    and "jle initialGuess SEARCH_RANGE_MULTIPLIER"
  shows "goalSeekSubtotal this target opts
         = Inl (InGoalSeek (InCalculationFromSubtotal (MustBeGreaterThanZero ''Subtotal'')))"
  unfolding goalSeekSubtotal_def
  by (simp add: algebraic_validates [OF assms(1)] assms(1) low_clamped [OF assms(2)]
      calculateNetForSubtotal_zero)

theorem goalSeek_small_target_throws_witness:
  "calculateSubtotalFromNetAlgebraic
     \<lparr>vatRate = Fin 0.16, incomeTaxRate = Fin 0.10, vatRetentionFraction = Fin 0.6666666667\<rparr>
     (Fin 1000) = Inr (Fin (1000 / 0.953333333328))
   \<and> jle (Fin (1000 / 0.953333333328)) SEARCH_RANGE_MULTIPLIER
   \<and> goalSeekSubtotal
       \<lparr>vatRate = Fin 0.16, incomeTaxRate = Fin 0.10, vatRetentionFraction = Fin 0.6666666667\<rparr>
       (Fin 1000) \<lparr>roundPerLine = True\<rparr>
     = Inl (InGoalSeek (InCalculationFromSubtotal (MustBeGreaterThanZero ''Subtotal'')))"
proof -
  have a: "calculateSubtotalFromNetAlgebraic
     \<lparr>vatRate = Fin 0.16, incomeTaxRate = Fin 0.10, vatRetentionFraction = Fin 0.6666666667\<rparr>
     (Fin 1000) = Inr (Fin (1000 / 0.953333333328))"
    by (simp add: calculateSubtotalFromNetAlgebraic_def validatePositiveNumber_Fin jsub_def)
  have b: "jle (Fin (1000 / 0.953333333328)) SEARCH_RANGE_MULTIPLIER"
    by (simp add: jle_def SEARCH_RANGE_MULTIPLIER_def)
  show ?thesis
    using a b goalSeek_small_target_throws [OF a b] by simp
qed

section \<open>Evaluating goal seek on concrete inputs\<close>

lemmas eval_simps =
  goalSeekSubtotal_def calculateSubtotalFromNetAlgebraic_def calculateNetForSubtotal_def
  calculateFromSubtotal_def validatePositiveNumber_Fin calculatePercentage_Fin round2_simps
  jsub_def jgt_def jle_def Math_max_def SEARCH_RANGE_MULTIPLIER_def TOLERANCE_def
  MAX_ATTEMPTS_def MAX_ITERATIONS_def sameSide_def improves_def
  widenBracket.simps binarySearch.simps

section \<open>The bounds of the two loops\<close>

lemma widenBracket_total: "All widenBracket_dom"
  by (relation "measure (\<lambda>(this, opts, target, attempts, low, high, nLow, nHigh).
                   MAX_ATTEMPTS + 1 - attempts)") auto

lemma binarySearch_total: "All binarySearch_dom"
  by (relation "measure (\<lambda>(this, opts, target, i, lo, hi, bestResult). MAX_ITERATIONS - i)")
     auto

lemma widenBracket_attempts:
  "widenBracket this opts target attempts low high nLow nHigh = Inr (k, l, h)
   \<Longrightarrow> attempts \<le> MAX_ATTEMPTS \<Longrightarrow> attempts \<le> k \<and> k \<le> MAX_ATTEMPTS"
proof (induction this opts target attempts low high nLow nHigh rule: widenBracket.induct)
  case (1 this opts target attempts low high nLow nHigh)
  show ?case
  proof (cases "sameSide target nLow nHigh")
    case False
    with "1.prems" show ?thesis by (simp add: widenBracket.simps)
  next
    case True
    let ?a = "attempts + 1"
    let ?low = "Math_max (Fin 0) (jsub low (jmul SEARCH_RANGE_MULTIPLIER (Fin (real ?a))))"
    let ?high = "jadd high (jmul SEARCH_RANGE_MULTIPLIER (Fin (real ?a)))"
    from "1.prems"(1) True have le: "\<not> MAX_ATTEMPTS < ?a"
      by (auto simp add: widenBracket.simps [of this opts target attempts] Let_def
          split: if_splits)
    from "1.prems"(1) True le obtain nLow' nHigh' where
      nl: "calculateNetForSubtotal this opts ?low = Inr nLow'"
      and nh: "calculateNetForSubtotal this opts ?high = Inr nHigh'"
      and rec: "widenBracket this opts target ?a ?low ?high nLow' nHigh' = Inr (k, l, h)"
      by (auto simp add: widenBracket.simps [of this opts target attempts] Let_def
          split: if_splits sum.splits)
    from "1.IH" [OF True refl le refl refl nl nh rec] le
    show ?thesis by simp
  qed
qed

lemma widenBracket_timeout:
  assumes "sameSide target nLow nHigh" and "MAX_ATTEMPTS \<le> attempts"
  shows "widenBracket this opts target attempts low high nLow nHigh = Inl GoalSeekTimeout"
  using assms by (simp add: widenBracket.simps [of this opts target attempts] Let_def)

lemma binarySearch_iterations:
  "binarySearch this opts target i lo hi bestResult = Inr (k, b)
   \<Longrightarrow> i \<le> MAX_ITERATIONS \<Longrightarrow> i \<le> k \<and> k \<le> MAX_ITERATIONS"
proof (induction this opts target i lo hi bestResult rule: binarySearch.induct)
  case (1 this opts target i lo hi bestResult)
  show ?case
  proof (cases "i < MAX_ITERATIONS")
    case False
    with "1.prems" show ?thesis by (simp add: binarySearch.simps)
  next
    case True
    let ?mid = "jdiv (jadd lo hi) (Fin 2)"
    from "1.prems"(1) True obtain result where
      res: "calculateFromSubtotal this ?mid opts = Inr result"
      by (auto simp add: binarySearch.simps [of this opts target i] Let_def split: sum.splits)
    let ?net = "netAmount result"
    let ?best = "if improves target ?net bestResult then Some result else bestResult"
    show ?thesis
    proof (cases "jlt (Math_abs (jsub ?net target)) TOLERANCE")
      case close: True
      with "1.prems" True res show ?thesis
        by (simp add: binarySearch.simps [of this opts target i] Let_def)
    next
      case far: False
      show ?thesis
      proof (cases "jgt ?net target")
        case above: True
        from "1.prems"(1) True res far above
        have rec: "binarySearch this opts target (i + 1) lo ?mid ?best = Inr (k, b)"
          by (simp add: binarySearch.simps [of this opts target i] Let_def)
        from "1.IH"(1) [OF True refl res refl refl far above rec] True
        show ?thesis by simp
      next
        case below: False
        from "1.prems"(1) True res far below
        have rec: "binarySearch this opts target (i + 1) ?mid hi ?best = Inr (k, b)"
          by (simp add: binarySearch.simps [of this opts target i] Let_def)
        from "1.IH"(2) [OF True refl res refl refl far below rec] True
        show ?thesis by simp
      qed
    qed
  qed
qed

text \<open>
  Claim C2. Both loops of \<open>goalSeekSubtotal\<close> terminate on every input (their recursion
  is well-founded on every argument, by the measures \<open>MAX_ATTEMPTS + 1 - attempts\<close> and
  \<open>MAX_ITERATIONS - i\<close>). The bracket-widening loop leaves with at most \<open>MAX_ATTEMPTS = 40\<close>
  widenings done, and fails with the goal-seek timeout when the bracket does not straddle
  the target and the 40 attempts are used up. The binary search stops with its counter at
  most \<open>MAX_ITERATIONS = 80\<close>.
\<close>

theorem goalSeek_loops_bounded:
  "widenBracket_dom (this, opts, target, attempts, low, high, nLow, nHigh)
   \<and> binarySearch_dom (this, opts, target, i, lo, hi, bestResult)
   \<and> (widenBracket this opts target 0 low high nLow nHigh = Inr (k, l, h)
        \<longrightarrow> k \<le> MAX_ATTEMPTS)
   \<and> (sameSide target nLow nHigh \<and> MAX_ATTEMPTS \<le> attempts
        \<longrightarrow> widenBracket this opts target attempts low high nLow nHigh = Inl GoalSeekTimeout)
   \<and> (binarySearch this opts target 0 lo hi bestResult = Inr (j, b)
        \<longrightarrow> j \<le> MAX_ITERATIONS)
   \<and> MAX_ATTEMPTS = 40 \<and> MAX_ITERATIONS = 80"
proof -
  have "widenBracket_dom (this, opts, target, attempts, low, high, nLow, nHigh)"
    using widenBracket_total by blast
  moreover have "binarySearch_dom (this, opts, target, i, lo, hi, bestResult)"
    using binarySearch_total by blast
  moreover have "widenBracket this opts target 0 low high nLow nHigh = Inr (k, l, h)
        \<longrightarrow> k \<le> MAX_ATTEMPTS"
    using widenBracket_attempts [of this opts target 0 low high nLow nHigh k l h] by simp
  moreover have "sameSide target nLow nHigh \<and> MAX_ATTEMPTS \<le> attempts
        \<longrightarrow> widenBracket this opts target attempts low high nLow nHigh = Inl GoalSeekTimeout"
    using widenBracket_timeout by blast
  moreover have "binarySearch this opts target 0 lo hi bestResult = Inr (j, b)
        \<longrightarrow> j \<le> MAX_ITERATIONS"
    using binarySearch_iterations [of this opts target 0 lo hi bestResult j b] by simp
  ultimately show ?thesis by (simp add: MAX_ATTEMPTS_def MAX_ITERATIONS_def)
qed

theorem goalSeek_loops_bounded_witness:
  "widenBracket
     \<lparr>vatRate = Fin 0.16, incomeTaxRate = Fin 0.10, vatRetentionFraction = Fin 0.6666666667\<rparr>
     \<lparr>roundPerLine = True\<rparr> (Fin 9280) 0 (Fin 7000) (Fin 9000) (Fin 0) (Fin 0)
   = Inr (1, Fin 5000, Fin 11000)
   \<and> 1 \<le> MAX_ATTEMPTS
   \<and> sameSide (Fin 9280) (Fin 0) (Fin 0) \<and> MAX_ATTEMPTS \<le> 40
   \<and> widenBracket
        \<lparr>vatRate = Fin 0.16, incomeTaxRate = Fin 0.10, vatRetentionFraction = Fin 0.6666666667\<rparr>
        \<lparr>roundPerLine = True\<rparr> (Fin 9280) 40 (Fin 7000) (Fin 9000) (Fin 0) (Fin 0)
      = Inl GoalSeekTimeout
   \<and> (\<exists>b. binarySearch
         \<lparr>vatRate = Fin 0.16, incomeTaxRate = Fin 0.10, vatRetentionFraction = Fin 0.6666666667\<rparr>
         \<lparr>roundPerLine = True\<rparr> (Fin 9280) 0 (Fin 6734.27) (Fin 10734.27) None = Inr (1, b))
   \<and> 1 \<le> MAX_ITERATIONS"
proof -
  let ?rates = "\<lparr>vatRate = Fin 0.16, incomeTaxRate = Fin 0.10,
                 vatRetentionFraction = Fin 0.6666666667\<rparr>"
  let ?opts = "\<lparr>roundPerLine = True\<rparr>"
  have w: "widenBracket ?rates ?opts (Fin 9280) 0 (Fin 7000) (Fin 9000) (Fin 0) (Fin 0)
           = Inr (1, Fin 5000, Fin 11000)"
    by (simp add: eval_simps)
  have s: "sameSide (Fin 9280) (Fin 0) (Fin 0) \<and> MAX_ATTEMPTS \<le> 40"
    by (simp add: sameSide_def MAX_ATTEMPTS_def)
  have "\<exists>b. binarySearch ?rates ?opts (Fin 9280) 0 (Fin 6734.27) (Fin 10734.27) None = Inr (1, b)"
    by (simp add: calculateFromSubtotal_rounded r2_def binarySearch.simps improves_def
        jgt_def jsub_def TOLERANCE_def MAX_ITERATIONS_def)
  then obtain b where
    b: "binarySearch ?rates ?opts (Fin 9280) 0 (Fin 6734.27) (Fin 10734.27) None = Inr (1, b)"
    by (elim exE)
  note inst = goalSeek_loops_bounded
    [where this = ?rates and opts = ?opts and target = "Fin 9280" and attempts = 40
       and low = "Fin 7000" and high = "Fin 9000" and nLow = "Fin 0" and nHigh = "Fin 0"
       and k = 1 and l = "Fin 5000" and h = "Fin 11000"
       and lo = "Fin 6734.27" and hi = "Fin 10734.27" and bestResult = None and j = 1 and b = b]
  have c1: "1 \<le> MAX_ATTEMPTS" using inst w by blast
  have c2: "widenBracket ?rates ?opts (Fin 9280) 40 (Fin 7000) (Fin 9000) (Fin 0) (Fin 0)
            = Inl GoalSeekTimeout" using inst s by blast
  have c3: "1 \<le> MAX_ITERATIONS" using inst b by blast
  from w c1 s c2 b c3 show ?thesis by blast
qed

section \<open>The result of goal seek\<close>

lemma andThen_Inr_iff: "andThen r f = Inr y \<longleftrightarrow> (\<exists>x. r = Inr x \<and> f x = Inr y)"
  by (cases r) simp_all

lemma rethrow_Inr_iff: "rethrow w r = Inr y \<longleftrightarrow> r = Inr y"
  by (cases r) simp_all

lemma calculatePercentage_PInf_base:
  "calculatePercentage PInf p = Inr y \<Longrightarrow> y = NaN \<or> y = PInf"
  by (cases p)
     (auto simp add: calculatePercentage_def validatePositiveNumber_def isNaN_def jle_def
        jgt_def split: if_splits)

lemma net_of_PInf:
  assumes "z = NaN \<or> z = PInf"
  shows "\<exists>e. round2 (jsub (jsub (jadd PInf PInf) z) w) = Inl e"
  using assms by (cases w) (auto simp add: jsub_def round2_simps)

lemma calculateFromSubtotal_PInf: "\<exists>e. calculateFromSubtotal this PInf opts = Inl e"
proof (rule ccontr)
  assume "\<not> ?thesis"
  then obtain r where r: "calculateFromSubtotal this PInf opts = Inr r"
    by (cases "calculateFromSubtotal this PInf opts") auto
  from r obtain y z w vat' it' vr' where
    p1: "calculatePercentage PInf (vatRate this) = Inr y"
    and p2: "calculatePercentage PInf (incomeTaxRate this) = Inr z"
    and p3: "calculatePercentage y (vatRetentionFraction this) = Inr w"
    and l1: "(if roundPerLine opts then round2 y else Inr y) = Inr vat'"
    and l2: "(if roundPerLine opts then round2 z else Inr z) = Inr it'"
    and l3: "(if roundPerLine opts then round2 w else Inr w) = Inr vr'"
    and net: "\<exists>n. round2 (jsub (jsub (jadd PInf vat') it') vr') = Inr n"
    unfolding calculateFromSubtotal_def rethrow_Inr_iff andThen_Inr_iff Let_def
    by blast
  from calculatePercentage_PInf_base [OF p1] p3 calculatePercentage_NaN_base [of "vatRetentionFraction this"]
  have y: "y = PInf" by auto
  from calculatePercentage_PInf_base [OF p2] have z: "z = NaN \<or> z = PInf" .
  from l1 y have vat': "vat' = PInf" by (auto simp add: round2_simps split: if_splits)
  from l2 z have it': "it' = NaN \<or> it' = PInf"
    by (auto simp add: round2_simps split: if_splits)
  from net_of_PInf [OF it', of vr'] net show False
    unfolding vat' by auto
qed

lemma calculateFromSubtotal_finite:
  assumes "calculateFromSubtotal this s opts = Inr r"
  shows "\<exists>x. s = Fin x \<and> 0 < x"
proof (cases s)
  case NaN
  with assms show ?thesis
    by (simp add: calculateFromSubtotal_def validatePositiveNumber_def isNaN_def)
next
  case PInf
  with assms calculateFromSubtotal_PInf [of this opts] show ?thesis by auto
next
  case NInf
  with assms show ?thesis
    by (simp add: calculateFromSubtotal_def validatePositiveNumber_def isNaN_def jle_def)
next
  case (Fin x)
  with assms show ?thesis
    by (cases "x \<le> 0") (simp_all add: calculateFromSubtotal_def validatePositiveNumber_Fin)
qed

lemma round2_finite_result:
  assumes "round2 v = Inr (Fin x)"
  shows "\<exists>k::int. x = of_int k / 100"
proof (cases v)
  case (Fin y)
  with assms have "x = of_int \<lfloor>(y + 1 / 2 ^ 52) * 100 + 1 / 2\<rfloor> / 100"
    by (simp only: round2_simps sum.inject jsnum.inject)
  then show ?thesis by blast
qed (use assms in \<open>simp_all add: round2_simps\<close>)

text \<open>
  Claim C6. Whenever \<open>goalSeekSubtotal\<close> returns a breakdown, the binary search on the
  widened bracket has returned a best candidate, and the result is
  \<open>calculateFromSubtotal\<close> at \<open>round2\<close> of that candidate's subtotal with
  \<open>calculationMethod\<close> set to \<open>goalSeek\<close>; the returned subtotal is that rounded value, a
  whole number of hundredths.
\<close>

theorem goalSeek_recomputes_from_rounded_best:
  assumes "goalSeekSubtotal this target opts = Inr r"
  shows "\<exists>initialGuess nLow nHigh attempts low high i best rounded final k.
           calculateSubtotalFromNetAlgebraic this target = Inr initialGuess
         \<and> calculateNetForSubtotal this opts
              (Math_max (Fin 0) (jsub initialGuess SEARCH_RANGE_MULTIPLIER)) = Inr nLow
         \<and> calculateNetForSubtotal this opts
              (jadd initialGuess SEARCH_RANGE_MULTIPLIER) = Inr nHigh
         \<and> widenBracket this opts target 0
              (Math_max (Fin 0) (jsub initialGuess SEARCH_RANGE_MULTIPLIER))
              (jadd initialGuess SEARCH_RANGE_MULTIPLIER) nLow nHigh
            = Inr (attempts, low, high)
         \<and> binarySearch this opts target 0 low high None = Inr (i, Some best)
         \<and> round2 (subtotal best) = Inr rounded
         \<and> calculateFromSubtotal this rounded opts = Inr final
         \<and> r = final\<lparr>calculationMethod := ''goalSeek''\<rparr>
         \<and> calculationMethod r = ''goalSeek''
         \<and> subtotal r = rounded
         \<and> rounded = Fin (of_int k / 100)"
proof -
  from assms obtain initialGuess nLow nHigh attempts low high i bestResult where
    alg: "calculateSubtotalFromNetAlgebraic this target = Inr initialGuess"
    and nl: "calculateNetForSubtotal this opts
              (Math_max (Fin 0) (jsub initialGuess SEARCH_RANGE_MULTIPLIER)) = Inr nLow"
    and nh: "calculateNetForSubtotal this opts
              (jadd initialGuess SEARCH_RANGE_MULTIPLIER) = Inr nHigh"
    and wb: "widenBracket this opts target 0
              (Math_max (Fin 0) (jsub initialGuess SEARCH_RANGE_MULTIPLIER))
              (jadd initialGuess SEARCH_RANGE_MULTIPLIER) nLow nHigh
            = Inr (attempts, low, high)"
    and bs: "binarySearch this opts target 0 low high None = Inr (i, bestResult)"
    and fin: "(case bestResult of
                 None \<Rightarrow> Inl NullBestResult
               | Some best \<Rightarrow>
                   andThen (round2 (subtotal best)) (\<lambda>rounded.
                   andThen (calculateFromSubtotal this rounded opts) (\<lambda>final.
                     Inr (final\<lparr>calculationMethod := ''goalSeek''\<rparr>)))) = Inr r"
    unfolding goalSeekSubtotal_def rethrow_Inr_iff Let_def
    by (auto simp add: andThen_Inr_iff split: prod.splits)
  from fin obtain best rounded final where
    best: "bestResult = Some best"
    and rd: "round2 (subtotal best) = Inr rounded"
    and cf: "calculateFromSubtotal this rounded opts = Inr final"
    and r: "r = final\<lparr>calculationMethod := ''goalSeek''\<rparr>"
    by (cases bestResult) (auto simp add: andThen_Inr_iff)
  from calculateFromSubtotal_finite [OF cf] obtain x where x: "rounded = Fin x" by blast
  from round2_finite_result [OF rd [unfolded x]] obtain k :: int where k: "x = of_int k / 100"
    by blast
  have sub: "subtotal final = rounded"
    using cf unfolding calculateFromSubtotal_def rethrow_Inr_iff andThen_Inr_iff Let_def
    by auto
  show ?thesis
    using alg nl nh wb bs [unfolded best] rd cf r sub x k by auto
qed

theorem goalSeek_recomputes_from_rounded_best_witness:
  "goalSeekSubtotal
     \<lparr>vatRate = Fin 0.16, incomeTaxRate = Fin 0.10, vatRetentionFraction = Fin 0.6666666667\<rparr>
     (Fin 9280) \<lparr>roundPerLine = True\<rparr>
   = Inr \<lparr>subtotal = Fin 9734.27, vatRaw = Fin 1557.4832, incomeTaxWithheldRaw = Fin 973.427,
          vatRetentionRaw = Fin (6489513333657809 / 6250000000000),
          vat = Fin 1557.48, incomeTaxWithheld = Fin 973.43,
          vatRetention = Fin 1038.32, netAmount = Fin 9280,
          calculationMethod = ''goalSeek'', options = \<lparr>roundPerLine = True\<rparr>\<rparr>
   \<and> (\<exists>(best :: breakdown) final.
         round2 (subtotal best) = Inr (Fin 9734.27)
       \<and> calculateFromSubtotal
            \<lparr>vatRate = Fin 0.16, incomeTaxRate = Fin 0.10,
              vatRetentionFraction = Fin 0.6666666667\<rparr>
            (Fin 9734.27) \<lparr>roundPerLine = True\<rparr> = Inr final
       \<and> final\<lparr>calculationMethod := ''goalSeek''\<rparr>
           = \<lparr>subtotal = Fin 9734.27, vatRaw = Fin 1557.4832,
               incomeTaxWithheldRaw = Fin 973.427,
               vatRetentionRaw = Fin (6489513333657809 / 6250000000000),
               vat = Fin 1557.48, incomeTaxWithheld = Fin 973.43,
               vatRetention = Fin 1038.32, netAmount = Fin 9280,
               calculationMethod = ''goalSeek'', options = \<lparr>roundPerLine = True\<rparr>\<rparr>)"
proof -
  let ?rates = "\<lparr>vatRate = Fin 0.16, incomeTaxRate = Fin 0.10,
                 vatRetentionFraction = Fin 0.6666666667\<rparr>"
  let ?opts = "\<lparr>roundPerLine = True\<rparr>"
  let ?r = "\<lparr>subtotal = Fin 9734.27, vatRaw = Fin 1557.4832,
             incomeTaxWithheldRaw = Fin 973.427,
             vatRetentionRaw = Fin (6489513333657809 / 6250000000000),
             vat = Fin 1557.48, incomeTaxWithheld = Fin 973.43,
             vatRetention = Fin 1038.32, netAmount = Fin 9280,
             calculationMethod = ''goalSeek'', options = \<lparr>roundPerLine = True\<rparr>\<rparr>"
  have run: "goalSeekSubtotal ?rates (Fin 9280) ?opts = Inr ?r"
    by (simp add: eval_simps)
  from goalSeek_recomputes_from_rounded_best [OF run]
  obtain best :: breakdown and rounded final where
    rd: "round2 (subtotal best) = Inr rounded"
    and cf: "calculateFromSubtotal ?rates rounded ?opts = Inr final"
    and eq: "?r = final\<lparr>calculationMethod := ''goalSeek''\<rparr>"
    and sub: "subtotal ?r = rounded"
    by blast
  from sub have rounded: "rounded = Fin 9734.27" by simp
  from rd cf eq show ?thesis
    unfolding rounded using run by (intro conjI exI [of _ best] exI [of _ final]) simp_all
qed

section \<open>The round trip through the algebraic inverse\<close>







section \<open>Rounding in binary64\<close>

lemma binary64_exponent_eq:
  assumes lo: "2 powi e \<le> \<bar>x\<bar>" and hi: "\<bar>x\<bar> < 2 powi (e + 1)" and e: "- 1022 \<le> e"
  shows "binary64_exponent x = e"
proof -
  define k where "k = nat (e + 1074)"
  define n where "n = \<lfloor>\<bar>x\<bar> * 2 ^ 1074\<rfloor>"
  from e have k: "int k = e + 1074" by (simp add: k_def)
  have p: "(2::real) powi e * 2 ^ 1074 = 2 ^ k"
  proof -
    have "(2::real) powi e * 2 ^ 1074 = 2 powi e * 2 powi 1074" by simp
    also have "\<dots> = 2 powi (e + 1074)" by (simp add: power_int_add)
    also have "\<dots> = 2 powi (int k)" by (simp only: k)
    finally show ?thesis by simp
  qed
  have p': "(2::real) powi (e + 1) * 2 ^ 1074 = 2 ^ (k + 1)"
  proof -
    have "(2::real) powi (e + 1) = 2 powi e * 2" by (simp add: power_int_add)
    with p show ?thesis by simp
  qed
  from lo have "2 powi e * 2 ^ 1074 \<le> \<bar>x\<bar> * 2 ^ 1074" by simp
  then have "(2::real) ^ k \<le> \<bar>x\<bar> * 2 ^ 1074" by (simp only: p)
  then have "of_int (2 ^ k) \<le> \<bar>x\<bar> * 2 ^ 1074" by simp
  then have ge: "2 ^ k \<le> n" unfolding n_def by (simp only: le_floor_iff)
  from hi have "\<bar>x\<bar> * 2 ^ 1074 < 2 powi (e + 1) * 2 ^ 1074" by simp
  then have "\<bar>x\<bar> * 2 ^ 1074 < of_int (2 ^ (k + 1))" by (simp only: p') simp
  then have lt: "n < 2 ^ (k + 1)" unfolding n_def by (simp only: floor_less_iff)
  from lt have "n < 2 ^ nat (int (k + 1))" by (simp only: nat_int)
  then have "bitlen n \<le> int (k + 1)" by (simp only: bitlen_le_iff_power) simp
  moreover from ge have "2 ^ (nat (int (k + 1)) - 1) \<le> n" by (simp only: nat_int) simp
  then have "int (k + 1) \<le> bitlen n" by (simp only: bitlen_ge_iff_power) simp
  ultimately have "bitlen n = int k + 1" by simp
  then show ?thesis using e k by (simp add: binary64_exponent_def n_def)
qed

lemma rne_bounds: "of_int (rne z) \<le> z + 1 / 2" "z - 1 / 2 \<le> of_int (rne z)"
proof -
  define n where "n = \<lfloor>z\<rfloor>"
  define d where "d = z - of_int n"
  have d0: "0 \<le> d" unfolding d_def n_def by linarith
  have d1: "d < 1" unfolding d_def n_def by linarith
  have z: "z = of_int n + d" by (simp add: d_def)
  have r: "rne z = (if d < 1 / 2 then n else if 1 / 2 < d then n + 1
                    else if even n then n else n + 1)"
    by (simp add: rne_def Let_def n_def d_def)
  show "of_int (rne z) \<le> z + 1 / 2" using d0 d1 unfolding r by (auto simp add: z)
  show "z - 1 / 2 \<le> of_int (rne z)" using d0 d1 unfolding r by (auto simp add: z)
qed

lemma rne_abs_le:
  assumes "\<bar>z\<bar> \<le> of_int N"
  shows "\<bar>rne z\<bar> \<le> N"
proof -
  from assms have zu: "z \<le> of_int N" and zl: "- of_int N \<le> z" by (simp_all add: abs_le_iff)
  have "of_int (rne z) \<le> z + 1 / 2" by (rule rne_bounds)
  with zu have "real_of_int (rne z) < of_int (N + 1)" by simp
  then have u: "rne z < N + 1" by (simp only: of_int_less_iff)
  have "z - 1 / 2 \<le> of_int (rne z)" by (rule rne_bounds)
  with zl have "real_of_int (- N - 1) < of_int (rne z)" by simp
  then have l: "- N - 1 < rne z" by (simp only: of_int_less_iff)
  from u l show ?thesis by simp
qed

lemma binary64_eval:
  assumes lo: "2 powi e \<le> \<bar>x\<bar>" and hi: "\<bar>x\<bar> < 2 powi (e + 1)"
    and e: "- 1022 \<le> e" and e': "e \<le> 1022"
  shows "binary64 x = Fin (of_int (rne (x / 2 powi (e - 52))) * 2 powi (e - 52))"
proof -
  let ?q = "e - 52"
  let ?m = "rne (x / 2 powi ?q)"
  have q: "(0::real) < 2 powi ?q" by simp
  have "\<bar>x / 2 powi ?q\<bar> = \<bar>x\<bar> / 2 powi ?q" by simp
  also have "\<dots> < 2 powi (e + 1) / 2 powi ?q" using hi q by (simp add: divide_strict_right_mono)
  also have "\<dots> = 2 ^ 53"
  proof -
    have "(2::real) powi (?q + 53) = 2 powi ?q * 2 powi 53" by (rule power_int_add) simp
    moreover have "?q + 53 = e + 1" by simp
    ultimately have "(2::real) powi (e + 1) = 2 powi ?q * 2 powi 53" by simp
    then show ?thesis by simp
  qed
  finally have "\<bar>x / 2 powi ?q\<bar> \<le> of_int (2 ^ 53)" by simp
  then have m: "\<bar>?m\<bar> \<le> 2 ^ 53" by (rule rne_abs_le)
  have "\<bar>of_int ?m * 2 powi ?q\<bar> = of_int \<bar>?m\<bar> * (2::real) powi ?q" by (simp add: abs_mult)
  also have "\<dots> \<le> of_int (2 ^ 53) * 2 powi ?q"
  proof (rule mult_right_mono)
    from m show "real_of_int \<bar>?m\<bar> \<le> of_int (2 ^ 53)" by (simp only: of_int_le_iff)
    from q show "(0::real) \<le> 2 powi ?q" by simp
  qed
  also have "\<dots> = 2 powi (e + 1)"
  proof -
    have "(2::real) powi (53 + ?q) = 2 powi 53 * 2 powi ?q" by (rule power_int_add) simp
    moreover have "53 + ?q = e + 1" by simp
    ultimately show ?thesis by simp
  qed
  also have "\<dots> \<le> 2 powi 1023" using e' by (intro power_int_increasing) simp_all
  also have "\<dots> < 2 ^ 1024" by simp
  finally have "\<not> 2 ^ 1024 \<le> \<bar>of_int ?m * (2::real) powi ?q\<bar>" by simp
  then show ?thesis
    by (simp add: binary64_def Let_def binary64_exponent_eq [OF lo hi e])
qed








text \<open>
  A check of the rounding model on the sum that binary64 is known for:
  \<open>0.1 + 0.2\<close> is \<open>0.30000000000000004\<close> and not \<open>0.3\<close>.
\<close>

lemma binary64_sum_tenths:
  "binary64_result (jadd (binary64 0.1) (binary64 0.2)) = binary64 0.30000000000000004
   \<and> binary64 0.30000000000000004 \<noteq> binary64 0.3"
proof -
  have a: "binary64 0.1 = Fin (7205759403792794 / 2 ^ 56)"
    by (subst binary64_eval [where e = "- 4"]) (simp_all add: rne_def Let_def)
  have b: "binary64 0.2 = Fin (7205759403792794 / 2 ^ 55)"
    by (subst binary64_eval [where e = "- 3"]) (simp_all add: rne_def Let_def)
  have c: "binary64 0.3 = Fin (5404319552844595 / 2 ^ 54)"
    by (subst binary64_eval [where e = "- 2"]) (simp_all add: rne_def Let_def)
  have d: "binary64 0.30000000000000004 = Fin (5404319552844596 / 2 ^ 54)"
    by (subst binary64_eval [where e = "- 2"]) (simp_all add: rne_def Let_def)
  have e: "binary64_result (jadd (Fin (7205759403792794 / 2 ^ 56)) (Fin (7205759403792794 / 2 ^ 55)))
           = Fin (5404319552844596 / 2 ^ 54)"
    unfolding binary64_result_def
    by (simp, subst binary64_eval [where e = "- 2"]) (simp_all add: rne_def Let_def)
  show ?thesis by (simp only: a b c d e) simp
qed




end
